theory Spec2Isabelle
  imports Complex_Main "HOL-Library.Word"
begin

section \<open>Data-flow graph (compiler/src/Dataflow.cpp)\<close>

text \<open>
  A \<open>Variable*\<close> is a pointer that may be null: \<open>None\<close> is \<open>nullptr\<close>, \<open>Some v\<close>
  points at the variable \<open>v\<close>. Variables are compared by identity, so a natural
  number names one. The dependents recorded in \<open>_dependencies\<close> are pointers to
  nodes that the graph owns; a natural number names the node.
\<close>

type_synonym Variable = nat

record DataNode =
  dependencies :: "nat list"

text \<open>
  \<open>NotifyDependencies\<close> is the loop
  \<^verbatim>\<open>for (size_t i = 0; i < _dependencies.size(); ++i) _dependencies[i]->Process(graph, compiler, varResult);\<close>
  The three-argument \<open>Process\<close> of a dependent is virtual and declared outside
  the source file, and so is \<open>Compiler::FreeVar\<close>: both are parameters, acting on
  a state \<open>'s\<close> that stands for the graph and the compiler.
\<close>

function NotifyLoop ::
  "(nat \<Rightarrow> Variable \<Rightarrow> 's \<Rightarrow> 's) \<Rightarrow> nat list \<Rightarrow> Variable \<Rightarrow> nat \<Rightarrow> 's \<Rightarrow> 's" where
  "NotifyLoop depProcess deps varResult i s =
     (if i < length deps
      then NotifyLoop depProcess deps varResult (Suc i) (depProcess (deps ! i) varResult s)
      else s)"
  by pat_completeness auto
termination
  by (relation "measure (\<lambda>(depProcess, deps, varResult, i, s). length deps - i)") auto

definition NotifyDependencies ::
  "(nat \<Rightarrow> Variable \<Rightarrow> 's \<Rightarrow> 's) \<Rightarrow> DataNode \<Rightarrow> Variable \<Rightarrow> 's \<Rightarrow> 's" where
  "NotifyDependencies depProcess node varResult s =
     NotifyLoop depProcess (dependencies node) varResult 0 s"

definition OnProcessComplete :: "(Variable \<Rightarrow> 's \<Rightarrow> 's) \<Rightarrow> Variable \<Rightarrow> 's \<Rightarrow> 's" where
  "OnProcessComplete freeVar varResult s = freeVar varResult s"

text \<open>
  \<open>DataNode::Process(graph, compiler)\<close>. \<open>OnProcess\<close> is pure virtual: it is the
  parameter \<open>onProcess\<close>, which returns the pointer and the state it leaves.
\<close>

definition Process ::
  "('s \<Rightarrow> Variable option \<times> 's) \<Rightarrow> (nat \<Rightarrow> Variable \<Rightarrow> 's \<Rightarrow> 's) \<Rightarrow> (Variable \<Rightarrow> 's \<Rightarrow> 's) \<Rightarrow>
   DataNode \<Rightarrow> 's \<Rightarrow> 's" where
  "Process onProcess depProcess freeVar node s =
     (case onProcess s of
        (None, s1) \<Rightarrow> s1
      | (Some varResult, s1) \<Rightarrow>
          OnProcessComplete freeVar varResult (NotifyDependencies depProcess node varResult s1))"

text \<open>
  A state that only records the calls made: one event per call of a dependent's
  \<open>Process\<close> and one per call of \<open>FreeVar\<close>, in the order of the calls.
\<close>

datatype call = ProcessCall nat Variable | FreeVarCall Variable

definition logProcess :: "nat \<Rightarrow> Variable \<Rightarrow> call list \<Rightarrow> call list" where
  "logProcess d v calls = calls @ [ProcessCall d v]"

definition logFreeVar :: "Variable \<Rightarrow> call list \<Rightarrow> call list" where
  "logFreeVar v calls = calls @ [FreeVarCall v]"

text \<open>
  \<open>LiteralNode::LiteralNode(Variable* pVar)\<close> stores the pointer and then runs
  \<open>assert(pVar != nullptr)\<close>. A failed assertion aborts the program; it is the
  result \<open>Inl AssertionFailed\<close>. (The model is the build with assertions on;
  \<open>NDEBUG\<close> removes the check.)
\<close>

datatype abort = AssertionFailed

record LiteralNode =
  pVar :: "Variable option"

definition LiteralNode_ctor :: "Variable option \<Rightarrow> abort + LiteralNode" where
  "LiteralNode_ctor p = (if p \<noteq> None then Inr \<lparr>pVar = p\<rparr> else Inl AssertionFailed)"

section \<open>Values (value/src/VectorOperations.cpp, value/src/MatrixOperations.cpp)\<close>

datatype InputExceptionErrors = invalidArgument | sizeMismatch | typeMismatch

datatype LogicExceptionErrors = notImplemented

datatype exception =
  InputException InputExceptionErrors
| LogicException LogicExceptionErrors

text \<open>
  Modelled from the spec: the \<open>ValueType\<close> enumeration is declared outside the
  source files. The source names \<open>Float\<close>, \<open>Double\<close> and \<open>Int32\<close>; every other
  element type is \<open>OtherType k\<close>.
\<close>

datatype ValueType = Float | Double | Int32 | OtherType nat

text \<open>
  Modelled from the spec: a layout is the list of its extents, one per dimension
  (rank 0 is a scalar, 1 a vector, 2 a matrix), stored row-major without padding.
  A value is an element type, a handle to its buffer and its layout; \<open>Vector\<close>
  and \<open>Matrix\<close> wrap a value.
\<close>

type_synonym MemoryLayout = "nat list"

definition ScalarLayout :: MemoryLayout where
  "ScalarLayout = []"

definition NumDimensions :: "MemoryLayout \<Rightarrow> nat" where
  "NumDimensions l = length l"

record Value =
  valueType :: ValueType
  data :: nat
  layout :: MemoryLayout

type_synonym Vector = Value
type_synonym Matrix = Value

text \<open>\<open>GEMM\<close> and \<open>GEMV\<close> have one statement each: the throw.\<close>

definition GEMM :: "Matrix \<Rightarrow> Matrix \<Rightarrow> exception + Matrix" where
  "GEMM m1 m2 = Inl (LogicException notImplemented)"

definition GEMV :: "Matrix \<Rightarrow> Vector \<Rightarrow> exception + Vector" where
  "GEMV m v = Inl (LogicException notImplemented)"

subsection \<open>Memory, element access, copies and compound assignment\<close>

text \<open>
  Modelled from the spec: the classes \<open>Scalar\<close>, \<open>Vector\<close> and \<open>Matrix\<close> (element
  access, \<open>Size\<close>, \<open>GetType\<close>, \<open>Copy\<close>, the compound assignments) and the
  allocator are outside the source files. The memory is the list of the buffers
  allocated so far and a handle is an index into it, so that two values alias
  exactly when their handles are equal. \<open>Copy\<close> "produces an independent value":
  it allocates a new buffer holding the same elements. A compound assignment
  "mutates" the buffer of its left operand, element by element; between two
  vectors or matrices it first fails on a shape or element-type mismatch. A
  \<open>Scalar\<close> operand is its element. Elements are of a HOL numeric type: the
  rounding, overflow and division by zero of the machine types are not modelled.
\<close>

type_synonym 'a Memory = "'a list list"

definition GetType :: "Value \<Rightarrow> ValueType" where
  "GetType v = valueType v"

definition Size :: "Vector \<Rightarrow> nat" where
  "Size v = prod_list (layout v)"

definition GetCumulativeIncrement :: "MemoryLayout \<Rightarrow> nat \<Rightarrow> nat" where
  "GetCumulativeIncrement l d = prod_list (drop (Suc d) l)"

definition Vector_at :: "'a Memory \<Rightarrow> Vector \<Rightarrow> nat \<Rightarrow> 'a" where
  "Vector_at mem v index = (mem ! data v) ! (index * GetCumulativeIncrement (layout v) 0)"

definition Vector_set :: "'a Memory \<Rightarrow> Vector \<Rightarrow> nat \<Rightarrow> 'a \<Rightarrow> 'a Memory" where
  "Vector_set mem v index x =
     mem[data v := (mem ! data v)[index * GetCumulativeIncrement (layout v) 0 := x]]"

definition Matrix_at :: "'a Memory \<Rightarrow> Matrix \<Rightarrow> nat \<Rightarrow> nat \<Rightarrow> 'a" where
  "Matrix_at mem m row column =
     (mem ! data m) ! (row * GetCumulativeIncrement (layout m) 0
                       + column * GetCumulativeIncrement (layout m) 1)"

definition Allocate :: "ValueType \<Rightarrow> MemoryLayout \<Rightarrow> 'a::zero list" where
  "Allocate t l = replicate (prod_list l) 0"

definition Copy :: "'a Memory \<Rightarrow> Value \<Rightarrow> Value \<times> 'a Memory" where
  "Copy mem v = (v\<lparr>data := length mem\<rparr>, mem @ [mem ! data v])"

datatype CompoundAssignment = PlusAssign | MinusAssign | TimesAssign | DivideAssign

fun element_op :: "CompoundAssignment \<Rightarrow> 'a::{plus,minus,times,divide} \<Rightarrow> 'a \<Rightarrow> 'a" where
  "element_op PlusAssign x y = x + y"
| "element_op MinusAssign x y = x - y"
| "element_op TimesAssign x y = x * y"
| "element_op DivideAssign x y = x div y"

text \<open>\<open>v op= s\<close> for a scalar \<open>s\<close>, and \<open>v1 op= v2\<close>; both return their left operand.\<close>

definition assign_Scalar ::
  "CompoundAssignment \<Rightarrow> 'a::{plus,minus,times,divide} Memory \<Rightarrow> Value \<Rightarrow> 'a \<Rightarrow>
   (exception + Value) \<times> 'a Memory" where
  "assign_Scalar opn mem v s =
     (Inr v, mem[data v := map (\<lambda>x. element_op opn x s) (mem ! data v)])"

definition assign_Value ::
  "CompoundAssignment \<Rightarrow> 'a::{plus,minus,times,divide} Memory \<Rightarrow> Value \<Rightarrow> Value \<Rightarrow>
   (exception + Value) \<times> 'a Memory" where
  "assign_Value opn mem v1 v2 =
     (if layout v1 \<noteq> layout v2 then (Inl (InputException sizeMismatch), mem)
      else if GetType v1 \<noteq> GetType v2 then (Inl (InputException typeMismatch), mem)
      else (Inr v1,
            mem[data v1 := map2 (element_op opn) (mem ! data v1) (mem ! data v2)]))"

subsection \<open>The execution context\<close>

text \<open>
  \<open>InvokeForContext<T>\<close> runs its function only when the active context is a
  \<open>T\<close>; the source names the two context types below. \<open>GetContext().For\<close> is a
  method of the active context, defined outside the source files: the functions
  that call it take it as the parameter \<open>ctxFor\<close>.

  Modelled from the spec: in the interpreting context, \<open>For\<close> "walks every
  coordinate of the given layout in row-major (last-dimension-fastest) order and
  invokes the caller's per-coordinate callback synchronously".
\<close>

datatype ContextKind = ComputeContext | LLVMContext

fun row_major :: "MemoryLayout \<Rightarrow> nat list list" where
  "row_major [] = [[]]"
| "row_major (n # ns) = concat (map (\<lambda>i. map (\<lambda>c. i # c) (row_major ns)) [0..<n])"

definition ComputeContext_For :: "MemoryLayout \<Rightarrow> (nat list \<Rightarrow> 's \<Rightarrow> 's) \<Rightarrow> 's \<Rightarrow> 's" where
  "ComputeContext_For l fn s = fold fn (row_major l) s"

subsection \<open>VectorOperations.cpp\<close>

text \<open>
  A function that can throw returns the exception, if any, next to the state it
  leaves: what was written before the throw stays written.
\<close>

definition For_Vector ::
  "(MemoryLayout \<Rightarrow> (nat list \<Rightarrow> 's \<Rightarrow> 's) \<Rightarrow> 's \<Rightarrow> 's) \<Rightarrow> Vector \<Rightarrow> (nat \<Rightarrow> 's \<Rightarrow> 's) \<Rightarrow> 's \<Rightarrow>
   exception option \<times> 's" where
  "For_Vector ctxFor v fn s =
     (let l = layout v in
      if NumDimensions l \<noteq> 1 then (Some (InputException invalidArgument), s)
      else (None, ctxFor l (\<lambda>coordinates. fn (coordinates ! 0)) s))"

text \<open>
  The declaration built for the vendor routine: its name, the element type and
  pointer level of the returned value and of each parameter with its layout, and
  whether the symbol is decorated.
\<close>

type_synonym ValueDesc = "(ValueType \<times> nat) \<times> MemoryLayout"

record FunctionDeclaration =
  functionName :: string
  returns :: ValueDesc
  parameters :: "ValueDesc list"
  decorated :: bool

definition DeclareDot :: "string \<Rightarrow> ValueType \<Rightarrow> MemoryLayout \<Rightarrow> MemoryLayout \<Rightarrow> FunctionDeclaration" where
  "DeclareDot name t l1 l2 =
     \<lparr>functionName = name,
      returns = ((t, 0), ScalarLayout),
      parameters = [((Int32, 0), ScalarLayout), ((t, 1), l1), ((Int32, 0), ScalarLayout),
                    ((t, 1), l2), ((Int32, 0), ScalarLayout)],
      decorated = True\<rparr>"

text \<open>\<open>static_cast<int>\<close> of a \<open>size_t\<close>: the low 32 bits, read as signed.\<close>

definition static_cast_int :: "nat \<Rightarrow> int" where
  "static_cast_int n = sint (word_of_nat n :: 32 word)"

record CallArguments =
  arg_n :: int
  arg_x :: Value
  arg_incx :: int
  arg_y :: Value
  arg_incy :: int

definition DotArguments :: "Vector \<Rightarrow> Vector \<Rightarrow> CallArguments" where
  "DotArguments v1 v2 =
     \<lparr>arg_n = static_cast_int (Size v1),
      arg_x = v1,
      arg_incx = static_cast_int (GetCumulativeIncrement (layout v1) 0),
      arg_y = v2,
      arg_incy = static_cast_int (GetCumulativeIncrement (layout v2) 0)\<rparr>"

text \<open>
  What \<open>Dot\<close> asks of a backend, in order: in the interpreting context the
  declared function is defined as a call of \<open>math::Blas::Dot\<close> and run; in the
  emitting context a call of the undecorated symbol is emitted; the generic path
  asks the active context for a loop. The vendor routine is outside the
  repository: the scalar it returns is \<open>CallResult\<close>, the scalar that the loop
  accumulated is \<open>Constant\<close>. Modelled from the spec: the default-constructed
  \<open>Scalar result\<close> of the generic path accumulates from zero.
\<close>

datatype BackendCall =
  InvokeDefined FunctionDeclaration CallArguments
| EmitCall FunctionDeclaration CallArguments
| ContextFor MemoryLayout

datatype 'a Scalar =
  Constant 'a
| CallResult FunctionDeclaration CallArguments

definition VendorDot ::
  "ContextKind \<Rightarrow> FunctionDeclaration \<Rightarrow> Vector \<Rightarrow> Vector \<Rightarrow>
   BackendCall list \<times> (exception + 'a Scalar)" where
  "VendorDot ctx fn v1 v2 =
     (case ctx of
        ComputeContext \<Rightarrow>
          ([InvokeDefined fn (DotArguments v1 v2)], Inr (CallResult fn (DotArguments v1 v2)))
      | LLVMContext \<Rightarrow>
          ([EmitCall (fn\<lparr>decorated := False\<rparr>) (DotArguments v1 v2)],
           Inr (CallResult (fn\<lparr>decorated := False\<rparr>) (DotArguments v1 v2))))"

definition Dot ::
  "ContextKind \<Rightarrow> (MemoryLayout \<Rightarrow> (nat list \<Rightarrow> 'a \<Rightarrow> 'a) \<Rightarrow> 'a \<Rightarrow> 'a) \<Rightarrow>
   'a::{zero,plus,times} Memory \<Rightarrow> Vector \<Rightarrow> Vector \<Rightarrow>
   BackendCall list \<times> (exception + 'a Scalar)" where
  "Dot ctx ctxFor mem v1 v2 =
     (if Size v1 \<noteq> Size v2 then ([], Inl (InputException sizeMismatch))
      else if GetType v1 \<noteq> GetType v2 then ([], Inl (InputException typeMismatch))
      else if GetType v1 = Float then
        VendorDot ctx (DeclareDot ''cblas_sdot'' Float (layout v1) (layout v2)) v1 v2
      else if GetType v1 = Double then
        VendorDot ctx (DeclareDot ''cblas_ddot'' Double (layout v1) (layout v2)) v1 v2
      else
        (case For_Vector ctxFor v1
                (\<lambda>index result. result + Vector_at mem v1 index * Vector_at mem v2 index) 0 of
           (Some e, result) \<Rightarrow> ([], Inl e)
         | (None, result) \<Rightarrow> ([ContextFor (layout v1)], Inr (Constant result))))"


text \<open>The operators, in the order of the source file.\<close>

definition Vector_plus_Scalar ::
  "'a::{plus,minus,times,divide} Memory \<Rightarrow> Vector \<Rightarrow> 'a \<Rightarrow> (exception + Vector) \<times> 'a Memory" where
  "Vector_plus_Scalar mem v s = (let (copy, mem1) = Copy mem v in assign_Scalar PlusAssign mem1 copy s)"

definition Scalar_plus_Vector ::
  "'a::{plus,minus,times,divide} Memory \<Rightarrow> 'a \<Rightarrow> Vector \<Rightarrow> (exception + Vector) \<times> 'a Memory" where
  "Scalar_plus_Vector mem s v = Vector_plus_Scalar mem v s"

definition Vector_plus_Vector ::
  "'a::{plus,minus,times,divide} Memory \<Rightarrow> Vector \<Rightarrow> Vector \<Rightarrow> (exception + Vector) \<times> 'a Memory" where
  "Vector_plus_Vector mem v1 v2 = (let (copy, mem1) = Copy mem v1 in assign_Value PlusAssign mem1 copy v2)"

definition Scalar_minus_Vector ::
  "(MemoryLayout \<Rightarrow> (nat list \<Rightarrow> 'a Memory \<Rightarrow> 'a Memory) \<Rightarrow> 'a Memory \<Rightarrow> 'a Memory) \<Rightarrow>
   'a::{plus,minus,times,divide} Memory \<Rightarrow> 'a \<Rightarrow> Vector \<Rightarrow> (exception + Vector) \<times> 'a Memory" where
  "Scalar_minus_Vector ctxFor mem s v =
     (let (copy, mem1) = Copy mem v in
      case For_Vector ctxFor copy
             (\<lambda>index m. Vector_set m copy index (s - Vector_at m copy index)) mem1 of
        (Some e, mem2) \<Rightarrow> (Inl e, mem2)
      | (None, mem2) \<Rightarrow> (Inr copy, mem2))"

definition Vector_minus_Scalar ::
  "'a::{plus,minus,times,divide} Memory \<Rightarrow> Vector \<Rightarrow> 'a \<Rightarrow> (exception + Vector) \<times> 'a Memory" where
  "Vector_minus_Scalar mem v s =
     (let (copy, mem1) = Copy mem v in assign_Scalar MinusAssign mem1 copy s)"

definition Vector_minus_Vector ::
  "'a::{plus,minus,times,divide} Memory \<Rightarrow> Vector \<Rightarrow> Vector \<Rightarrow> (exception + Vector) \<times> 'a Memory" where
  "Vector_minus_Vector mem v1 v2 =
     (let (copy, mem1) = Copy mem v1 in assign_Value MinusAssign mem1 copy v2)"

definition Vector_times_Scalar ::
  "'a::{plus,minus,times,divide} Memory \<Rightarrow> Vector \<Rightarrow> 'a \<Rightarrow> (exception + Vector) \<times> 'a Memory" where
  "Vector_times_Scalar mem v s =
     (let (copy, mem1) = Copy mem v in assign_Scalar TimesAssign mem1 copy s)"

definition Scalar_times_Vector ::
  "'a::{plus,minus,times,divide} Memory \<Rightarrow> 'a \<Rightarrow> Vector \<Rightarrow> (exception + Vector) \<times> 'a Memory" where
  "Scalar_times_Vector mem s v = Vector_times_Scalar mem v s"

definition Scalar_divide_Vector ::
  "(MemoryLayout \<Rightarrow> (nat list \<Rightarrow> 'a Memory \<Rightarrow> 'a Memory) \<Rightarrow> 'a Memory \<Rightarrow> 'a Memory) \<Rightarrow>
   'a::{plus,minus,times,divide} Memory \<Rightarrow> 'a \<Rightarrow> Vector \<Rightarrow> (exception + Vector) \<times> 'a Memory" where
  "Scalar_divide_Vector ctxFor mem s v =
     (let (copy, mem1) = Copy mem v in
      case For_Vector ctxFor copy
             (\<lambda>index m. Vector_set m copy index (s div Vector_at m copy index)) mem1 of
        (Some e, mem2) \<Rightarrow> (Inl e, mem2)
      | (None, mem2) \<Rightarrow> (Inr copy, mem2))"

definition Vector_divide_Scalar ::
  "'a::{plus,minus,times,divide} Memory \<Rightarrow> Vector \<Rightarrow> 'a \<Rightarrow> (exception + Vector) \<times> 'a Memory" where
  "Vector_divide_Scalar mem v s =
     (let (copy, mem1) = Copy mem v in assign_Scalar DivideAssign mem1 copy s)"

subsection \<open>MatrixOperations.cpp\<close>

definition For_Matrix ::
  "(MemoryLayout \<Rightarrow> (nat list \<Rightarrow> 's \<Rightarrow> 's) \<Rightarrow> 's \<Rightarrow> 's) \<Rightarrow> Matrix \<Rightarrow> (nat \<Rightarrow> nat \<Rightarrow> 's \<Rightarrow> 's) \<Rightarrow> 's \<Rightarrow>
   exception option \<times> 's" where
  "For_Matrix ctxFor matrix fn s =
     (let l = layout matrix in
      if NumDimensions l \<noteq> 2 then (Some (InputException invalidArgument), s)
      else (None, ctxFor l (\<lambda>coordinates. fn (coordinates ! 0) (coordinates ! 1)) s))"

text \<open>
  \<open>Sum\<close> starts from \<open>Allocate(matrix.Type(), ScalarLayout)\<close>, a buffer of one
  element. Modelled from the spec: the allocated element is zero (the sum of
  \<open>[[1,2],[3,4]]\<close> is to be \<open>10\<close>).
\<close>

definition Sum ::
  "(MemoryLayout \<Rightarrow> (nat list \<Rightarrow> 'a list \<Rightarrow> 'a list) \<Rightarrow> 'a list \<Rightarrow> 'a list) \<Rightarrow>
   'a::{zero,plus} Memory \<Rightarrow> Matrix \<Rightarrow> exception + 'a" where
  "Sum ctxFor mem matrix =
     (case For_Matrix ctxFor matrix
             (\<lambda>row column result. [result ! 0 + Matrix_at mem matrix row column])
             (Allocate (GetType matrix) ScalarLayout) of
        (Some e, result) \<Rightarrow> Inl e
      | (None, result) \<Rightarrow> Inr (result ! 0))"

definition Matrix_plus_Matrix ::
  "'a::{plus,minus,times,divide} Memory \<Rightarrow> Matrix \<Rightarrow> Matrix \<Rightarrow> (exception + Matrix) \<times> 'a Memory" where
  "Matrix_plus_Matrix mem m1 m2 = (let (copy, mem1) = Copy mem m1 in assign_Value PlusAssign mem1 copy m2)"

definition Matrix_plus_Scalar ::
  "'a::{plus,minus,times,divide} Memory \<Rightarrow> Matrix \<Rightarrow> 'a \<Rightarrow> (exception + Matrix) \<times> 'a Memory" where
  "Matrix_plus_Scalar mem m s = (let (copy, mem1) = Copy mem m in assign_Scalar PlusAssign mem1 copy s)"

definition Matrix_minus_Matrix ::
  "'a::{plus,minus,times,divide} Memory \<Rightarrow> Matrix \<Rightarrow> Matrix \<Rightarrow> (exception + Matrix) \<times> 'a Memory" where
  "Matrix_minus_Matrix mem m1 m2 =
     (let (copy, mem1) = Copy mem m1 in assign_Value MinusAssign mem1 copy m2)"

definition Matrix_minus_Scalar ::
  "'a::{plus,minus,times,divide} Memory \<Rightarrow> Matrix \<Rightarrow> 'a \<Rightarrow> (exception + Matrix) \<times> 'a Memory" where
  "Matrix_minus_Scalar mem m s =
     (let (copy, mem1) = Copy mem m in assign_Scalar MinusAssign mem1 copy s)"

definition Matrix_times_Scalar ::
  "'a::{plus,minus,times,divide} Memory \<Rightarrow> Matrix \<Rightarrow> 'a \<Rightarrow> (exception + Matrix) \<times> 'a Memory" where
  "Matrix_times_Scalar mem m s =
     (let (copy, mem1) = Copy mem m in assign_Scalar TimesAssign mem1 copy s)"

definition Matrix_divide_Scalar ::
  "'a::{plus,minus,times,divide} Memory \<Rightarrow> Matrix \<Rightarrow> 'a \<Rightarrow> (exception + Matrix) \<times> 'a Memory" where
  "Matrix_divide_Scalar mem m s =
     (let (copy, mem1) = Copy mem m in assign_Scalar DivideAssign mem1 copy s)"

subsection \<open>Memory before and after an operation\<close>

text \<open>
  \<open>preserves mem mem'\<close>: every buffer of \<open>mem\<close> is still in \<open>mem'\<close>, under the same
  handle and with the same elements; \<open>mem'\<close> may have buffers allocated since.
\<close>

definition preserves :: "'a Memory \<Rightarrow> 'a Memory \<Rightarrow> bool" where
  "preserves mem mem' \<longleftrightarrow> length mem \<le> length mem' \<and> take (length mem) mem' = mem"

section \<open>Window functions (dsp/include/WindowFunctions.h)\<close>

datatype WindowSymmetry = symmetric | periodic

text \<open>
  The functions are templates over the element type of the window; the model is
  the instance for \<open>double\<close>, where the two \<open>static_cast<ValueType>\<close> of a
  \<open>double\<close> change nothing.

  A \<open>double\<close> is a finite number, an infinity (\<open>Infinite True\<close> is the negative
  one) or not-a-number. The result of an operation on finite numbers is the exact
  result rounded, which may overflow to an infinity: the rounding, the library's
  cosine and the constant \<open>math::Constants<double>::pi\<close> (declared outside the
  source file) are the parameters \<open>rounded\<close>, \<open>cos_libm\<close> and \<open>pi_double\<close>, and
  nothing is assumed of them. Infinities and not-a-number propagate as IEEE 754
  has it: \<open>0/0\<close>, \<open>\<infinity> - \<infinity>\<close>, \<open>\<infinity> * 0\<close>, \<open>\<infinity>/\<infinity>\<close> and the cosine of an infinity are
  not-a-number, a non-zero number over zero is an infinity, and an operation with
  a not-a-number operand is not-a-number. The sign of a zero is not modelled: a
  zero divisor is \<open>+0\<close>, as the only zero divisor of these functions is.
\<close>

datatype double = Finite real | Infinite bool | NaN

record FloatingPoint =
  rounded :: "real \<Rightarrow> double"
  cos_libm :: "real \<Rightarrow> double"
  pi_double :: double

fun fadd :: "FloatingPoint \<Rightarrow> double \<Rightarrow> double \<Rightarrow> double" where
  "fadd fp (Finite x) (Finite y) = rounded fp (x + y)"
| "fadd fp NaN y = NaN"
| "fadd fp x NaN = NaN"
| "fadd fp (Infinite s) (Infinite t) = (if s = t then Infinite s else NaN)"
| "fadd fp (Infinite s) (Finite y) = Infinite s"
| "fadd fp (Finite x) (Infinite t) = Infinite t"

fun fsub :: "FloatingPoint \<Rightarrow> double \<Rightarrow> double \<Rightarrow> double" where
  "fsub fp (Finite x) (Finite y) = rounded fp (x - y)"
| "fsub fp NaN y = NaN"
| "fsub fp x NaN = NaN"
| "fsub fp (Infinite s) (Infinite t) = (if s = t then NaN else Infinite s)"
| "fsub fp (Infinite s) (Finite y) = Infinite s"
| "fsub fp (Finite x) (Infinite t) = Infinite (\<not> t)"

fun fmul :: "FloatingPoint \<Rightarrow> double \<Rightarrow> double \<Rightarrow> double" where
  "fmul fp (Finite x) (Finite y) = rounded fp (x * y)"
| "fmul fp NaN y = NaN"
| "fmul fp x NaN = NaN"
| "fmul fp (Infinite s) (Infinite t) = Infinite (s \<noteq> t)"
| "fmul fp (Infinite s) (Finite y) = (if y = 0 then NaN else Infinite (s \<noteq> (y < 0)))"
| "fmul fp (Finite x) (Infinite t) = (if x = 0 then NaN else Infinite ((x < 0) \<noteq> t))"

fun fdiv :: "FloatingPoint \<Rightarrow> double \<Rightarrow> double \<Rightarrow> double" where
  "fdiv fp (Finite x) (Finite y) =
     (if y = 0 then (if x = 0 then NaN else Infinite (x < 0)) else rounded fp (x / y))"
| "fdiv fp NaN y = NaN"
| "fdiv fp x NaN = NaN"
| "fdiv fp (Infinite s) (Infinite t) = NaN"
| "fdiv fp (Infinite s) (Finite y) = Infinite (s \<noteq> (y < 0))"
| "fdiv fp (Finite x) (Infinite t) = Finite 0"

fun fcos :: "FloatingPoint \<Rightarrow> double \<Rightarrow> double" where
  "fcos fp (Finite x) = cos_libm fp x"
| "fcos fp x = NaN"

text \<open>
  The conversion of a \<open>size_t\<close> to \<open>double\<close>: exact up to \<open>2^53\<close>, rounded above.
\<close>

definition size_to_double :: "FloatingPoint \<Rightarrow> nat \<Rightarrow> double" where
  "size_to_double fp n = (if n \<le> 2 ^ 53 then Finite (real n) else rounded fp (real n))"

text \<open>
  The inner loop over \<open>coeffIndex\<close> and the outer loop over \<open>index\<close>, each with the
  variables it updates. The inner loop adds
  \<open>sign * coefficients[coeffIndex] * std::cos((2 * pi * coeffIndex * index) / denom)\<close>
  to \<open>windowVal\<close> and multiplies \<open>sign\<close> by \<open>-1\<close>; the outer loop starts each
  \<open>windowVal\<close> at \<open>coefficients[0]\<close> and each \<open>sign\<close> at \<open>-1.0\<close>.
\<close>

function coeffLoop ::
  "FloatingPoint \<Rightarrow> double list \<Rightarrow> nat \<Rightarrow> double \<Rightarrow> nat \<Rightarrow> double \<Rightarrow> double \<Rightarrow> double" where
  "coeffLoop fp coefficients index denom coeffIndex sign windowVal =
     (if coeffIndex < length coefficients
      then coeffLoop fp coefficients index denom (Suc coeffIndex) (fmul fp sign (Finite (- 1)))
             (fadd fp windowVal
                (fmul fp (fmul fp sign (coefficients ! coeffIndex))
                   (fcos fp
                      (fdiv fp
                         (fmul fp
                            (fmul fp (fmul fp (Finite 2) (pi_double fp))
                               (size_to_double fp coeffIndex))
                            (size_to_double fp index))
                         denom))))
      else windowVal)"
  by pat_completeness auto
termination
  by (relation "measure (\<lambda>(fp, coefficients, index, denom, coeffIndex, sign, windowVal).
        length coefficients - coeffIndex)") auto

function indexLoop ::
  "FloatingPoint \<Rightarrow> double list \<Rightarrow> double \<Rightarrow> nat \<Rightarrow> nat \<Rightarrow> double list \<Rightarrow> double list" where
  "indexLoop fp coefficients denom sz index result =
     (if index < sz
      then indexLoop fp coefficients denom sz (Suc index)
             (result[index :=
                coeffLoop fp coefficients index denom 1 (Finite (- 1)) (coefficients ! 0)])
      else result)"
  by pat_completeness auto
termination
  by (relation "measure (\<lambda>(fp, coefficients, denom, sz, index, result). sz - index)") auto

text \<open>
  \<open>size_t\<close> is 64 bits wide, so that \<open>size - 1\<close> wraps at \<open>size = 0\<close>.
  \<open>std::vector<ValueType> result(size)\<close> throws when the \<open>size\<close> elements cannot be
  allocated: \<open>available\<close> is the number of elements that can be. The elements
  start at zero. \<open>coefficients[0]\<close> is read in every iteration of the outer loop;
  on an empty vector the read is out of range.
\<close>

datatype fault = AllocationFailed | OutOfRange

definition GeneralizedCosineWindow ::
  "FloatingPoint \<Rightarrow> nat \<Rightarrow> 64 word \<Rightarrow> double list \<Rightarrow> WindowSymmetry \<Rightarrow> fault + double list" where
  "GeneralizedCosineWindow fp available sz coefficients symmetry =
     (let denom = size_to_double fp (unat (if symmetry = symmetric then sz - 1 else sz))
      in if available < unat sz then Inl AllocationFailed
         else if 0 < unat sz \<and> coefficients = [] then Inl OutOfRange
         else Inr (indexLoop fp coefficients denom (unat sz) 0 (replicate (unat sz) (Finite 0))))"

definition HammingWindow ::
  "FloatingPoint \<Rightarrow> nat \<Rightarrow> 64 word \<Rightarrow> WindowSymmetry \<Rightarrow> fault + double list" where
  "HammingWindow fp available sz symmetry =
     (let alpha = rounded fp 0.54; beta = fsub fp (Finite 1.0) alpha
      in GeneralizedCosineWindow fp available sz [alpha, beta] symmetry)"

definition HannWindow ::
  "FloatingPoint \<Rightarrow> nat \<Rightarrow> 64 word \<Rightarrow> WindowSymmetry \<Rightarrow> fault + double list" where
  "HannWindow fp available sz symmetry =
     GeneralizedCosineWindow fp available sz [Finite 0.5, Finite 0.5] symmetry"

section \<open>Theorems\<close>

declare NotifyLoop.simps [simp del]

subsection \<open>Data-flow nodes\<close>

lemma NotifyLoop_fold:
  "NotifyLoop depProcess deps v i s = fold (\<lambda>d. depProcess d v) (drop i deps) s"
proof (induction depProcess deps v i s rule: NotifyLoop.induct)
  case (1 depProcess deps v i s)
  show ?case
  proof (cases "i < length deps")
    case True
    have "NotifyLoop depProcess deps v i s =
        NotifyLoop depProcess deps v (Suc i) (depProcess (deps ! i) v s)"
      using True by (subst NotifyLoop.simps) simp
    also have "\<dots> = fold (\<lambda>d. depProcess d v) (drop (Suc i) deps) (depProcess (deps ! i) v s)"
      using True by (rule "1.IH")
    also have "\<dots> = fold (\<lambda>d. depProcess d v) (drop i deps) s"
      using True by (simp flip: Cons_nth_drop_Suc)
    finally show ?thesis .
  next
    case False
    then show ?thesis by (subst NotifyLoop.simps) simp
  qed
qed

lemma NotifyDependencies_fold:
  "NotifyDependencies depProcess node v s = fold (\<lambda>d. depProcess d v) (dependencies node) s"
  by (simp add: NotifyDependencies_def NotifyLoop_fold)

lemma fold_logProcess:
  "fold (\<lambda>d. logProcess d v) ds calls = calls @ map (\<lambda>d. ProcessCall d v) ds"
  by (induction ds arbitrary: calls) (simp_all add: logProcess_def)

lemma count_list_ProcessCalls:
  "count_list (map (\<lambda>d. ProcessCall d v) ds) (FreeVarCall w) = 0"
  by (induction ds) simp_all

text \<open>
  C1. When \<open>OnProcess\<close> produces a value, \<open>Process\<close> calls the \<open>Process\<close> of every
  recorded dependent once, in the recorded order, and then runs
  \<open>OnProcessComplete\<close>, which calls \<open>FreeVar\<close> on the produced variable once. In
  the recorded calls, call \<open>i\<close> notifies dependent \<open>i\<close>, the call after the last
  notification is the only \<open>FreeVar\<close>, and with no dependent the \<open>FreeVar\<close> is
  the only call.
\<close>

theorem Process_notifies_then_frees:
  assumes "onProcess s = (Some v, s1)"
    and "onProcessL calls = (Some v, calls1)"
  shows "Process onProcess depProcess freeVar node s =
           freeVar v (fold (\<lambda>d. depProcess d v) (dependencies node) s1)
         \<and> Process onProcessL logProcess logFreeVar node calls =
             calls1 @ map (\<lambda>d. ProcessCall d v) (dependencies node) @ [FreeVarCall v]
         \<and> (\<forall>i < length (dependencies node).
               (map (\<lambda>d. ProcessCall d v) (dependencies node) @ [FreeVarCall v]) ! i =
                 ProcessCall (dependencies node ! i) v)
         \<and> (map (\<lambda>d. ProcessCall d v) (dependencies node) @ [FreeVarCall v])
               ! length (dependencies node) = FreeVarCall v
         \<and> count_list (map (\<lambda>d. ProcessCall d v) (dependencies node) @ [FreeVarCall v])
              (FreeVarCall v) = 1
         \<and> (dependencies node = [] \<longrightarrow>
              Process onProcessL logProcess logFreeVar node calls = calls1 @ [FreeVarCall v])"
proof -
  have gen: "Process onProcess depProcess freeVar node s =
      freeVar v (fold (\<lambda>d. depProcess d v) (dependencies node) s1)"
    using assms(1) by (simp add: Process_def OnProcessComplete_def NotifyDependencies_fold)
  have logged: "Process onProcessL logProcess logFreeVar node calls =
      calls1 @ map (\<lambda>d. ProcessCall d v) (dependencies node) @ [FreeVarCall v]"
    using assms(2)
    by (simp add: Process_def OnProcessComplete_def NotifyDependencies_fold fold_logProcess
        logFreeVar_def)
  have cnt: "count_list (map (\<lambda>d. ProcessCall d v) (dependencies node) @ [FreeVarCall v])
      (FreeVarCall v) = 1"
    by (simp add: count_list_ProcessCalls)
  have none: "dependencies node = [] \<longrightarrow>
      Process onProcessL logProcess logFreeVar node calls = calls1 @ [FreeVarCall v]"
    using logged by simp
  have order: "\<forall>i < length (dependencies node).
      (map (\<lambda>d. ProcessCall d v) (dependencies node) @ [FreeVarCall v]) ! i =
        ProcessCall (dependencies node ! i) v"
    by (simp add: nth_append)
  have last: "(map (\<lambda>d. ProcessCall d v) (dependencies node) @ [FreeVarCall v])
      ! length (dependencies node) = FreeVarCall v"
    by (simp add: nth_append)
  show ?thesis using gen logged order last cnt none by blast
qed

theorem Process_notifies_then_frees_witness:
  "Process (\<lambda>s. (Some 7, s)) logProcess logFreeVar \<lparr>dependencies = [3, 5]\<rparr> []
     = [ProcessCall 3 7, ProcessCall 5 7, FreeVarCall 7]
   \<and> Process (\<lambda>s. (Some 7, s)) logProcess logFreeVar \<lparr>dependencies = []\<rparr> []
     = [FreeVarCall 7]"
  using Process_notifies_then_frees [of "\<lambda>s. (Some 7, s)" "[]" 7 "[]" "\<lambda>s. (Some 7, s)" "[]" "[]"
      logProcess logFreeVar "\<lparr>dependencies = [3, 5]\<rparr>"]
    Process_notifies_then_frees [of "\<lambda>s. (Some 7, s)" "[]" 7 "[]" "\<lambda>s. (Some 7, s)" "[]" "[]"
      logProcess logFreeVar "\<lparr>dependencies = []\<rparr>"]
  by (simp add: logProcess_def logFreeVar_def)

text \<open>
  C9. Constructing a \<open>LiteralNode\<close> from a null pointer fails the assertion;
  from a pointer to a variable it succeeds and the node stores that pointer.
\<close>

theorem LiteralNode_ctor_asserts_non_null:
  "LiteralNode_ctor None = Inl AssertionFailed
   \<and> LiteralNode_ctor (Some v) = Inr \<lparr>pVar = Some v\<rparr>
   \<and> (\<exists>n. LiteralNode_ctor (Some v) = Inr n \<and> pVar n = Some v)"
  by (simp add: LiteralNode_ctor_def)

subsection \<open>Operations that are not implemented\<close>

text \<open>
  C8. \<open>GEMM\<close> raises the not-implemented logic exception for every pair of
  matrices and \<open>GEMV\<close> for every matrix and vector; neither returns a result.
\<close>

theorem GEMM_GEMV_not_implemented:
  "GEMM m1 m2 = Inl (LogicException notImplemented)
   \<and> GEMV m v = Inl (LogicException notImplemented)
   \<and> (\<nexists>r. GEMM m1 m2 = Inr r) \<and> (\<nexists>r. GEMV m v = Inr r)"
  by (simp add: GEMM_def GEMV_def)

subsection \<open>The interpreting context's loop\<close>

lemma row_major_one: "row_major [n] = map (\<lambda>i. [i]) [0..<n]"
  by (simp add: concat_map_singleton)

lemma ComputeContext_For_one:
  "ComputeContext_For [n] fn s = fold (\<lambda>i. fn [i]) [0..<n] s"
  by (simp add: ComputeContext_For_def row_major_one fold_map comp_def)

lemma row_major_two:
  "row_major [r, c] = concat (map (\<lambda>i. map (\<lambda>j. [i, j]) [0..<c]) [0..<r])"
  by (simp add: concat_map_singleton comp_def)



lemma fold_snoc_map: "fold (\<lambda>x acc. acc @ [g x]) xs acc = acc @ map g xs"
  by (induction xs arbitrary: acc) simp_all

lemma row_major_two_pairs:
  "map (\<lambda>xs. (xs ! 0, xs ! Suc 0)) (row_major [r, c]) = List.product [0..<r] [0..<c]"
  by (simp add: row_major_two map_concat comp_def product_concat_map)

subsection \<open>Iteration\<close>

text \<open>
  C7. When the layout of the vector is not one-dimensional, or the layout of the
  matrix is not two-dimensional, \<open>For\<close> raises the invalid-argument input
  exception and leaves the state as it was, whatever the active context and the
  callback are; a callback that counts its invocations has counted none.
\<close>

theorem For_rank_mismatch:
  "(NumDimensions (layout v) \<noteq> 1 \<longrightarrow>
      For_Vector ctxFor v fn s = (Some (InputException invalidArgument), s)
      \<and> For_Vector ctxFor' v (\<lambda>index (n, t). (Suc n, fn index t)) (0, s) =
          (Some (InputException invalidArgument), (0, s)))
   \<and> (NumDimensions (layout m) \<noteq> 2 \<longrightarrow>
      For_Matrix ctxFor m fn2 s = (Some (InputException invalidArgument), s)
      \<and> For_Matrix ctxFor' m (\<lambda>row column (n, t). (Suc n, fn2 row column t)) (0, s) =
          (Some (InputException invalidArgument), (0, s)))"
  by (simp add: For_Vector_def For_Matrix_def)

theorem For_rank_mismatch_witness:
  "NumDimensions (layout \<lparr>valueType = Float, data = 0, layout = [2, 2]\<rparr>) \<noteq> 1
   \<and> For_Vector ComputeContext_For \<lparr>valueType = Float, data = 0, layout = [2, 2]\<rparr>
        (\<lambda>index (n, t). (Suc n, index # t)) (0, [] :: nat list) =
        (Some (InputException invalidArgument), (0, []))
   \<and> NumDimensions (layout \<lparr>valueType = Float, data = 0, layout = [3]\<rparr>) \<noteq> 2
   \<and> For_Matrix ComputeContext_For \<lparr>valueType = Float, data = 0, layout = [3]\<rparr>
        (\<lambda>row column (n, t). (Suc n, row # t)) (0, [] :: nat list) =
        (Some (InputException invalidArgument), (0, []))"
  using For_rank_mismatch [where v = "\<lparr>valueType = Float, data = 0, layout = [2, 2]\<rparr>"
      and m = "\<lparr>valueType = Float, data = 0, layout = [3]\<rparr>"
      and ctxFor = ComputeContext_For and ctxFor' = ComputeContext_For and s = "[] :: nat list"
      and fn = "\<lambda>index t. index # t" and ?fn2.0 = "\<lambda>row column t. row # t"]
  by (simp add: NumDimensions_def)

subsection \<open>Dot\<close>

text \<open>
  C3. When the sizes of the two vectors differ, \<open>Dot\<close> raises the size-mismatch
  input exception; when the sizes are equal and the element types differ, it
  raises the type-mismatch input exception. In both cases nothing has been asked
  of a backend: no function was run or emitted and no loop was started.
\<close>

theorem Dot_mismatch:
  "(Size v1 \<noteq> Size v2 \<longrightarrow>
      Dot ctx ctxFor mem v1 v2 = ([], Inl (InputException sizeMismatch)))
   \<and> (Size v1 = Size v2 \<and> GetType v1 \<noteq> GetType v2 \<longrightarrow>
      Dot ctx ctxFor mem v1 v2 = ([], Inl (InputException typeMismatch)))"
  by (simp add: Dot_def)

theorem Dot_mismatch_witness:
  "Size \<lparr>valueType = Float, data = 0, layout = [3]\<rparr>
     \<noteq> Size \<lparr>valueType = Float, data = 1, layout = [4]\<rparr>
   \<and> Dot ComputeContext ComputeContext_For [[1, 2, 3], [4, 5, 6, 7 :: int]]
        \<lparr>valueType = Float, data = 0, layout = [3]\<rparr>
        \<lparr>valueType = Float, data = 1, layout = [4]\<rparr> = ([], Inl (InputException sizeMismatch))
   \<and> Size \<lparr>valueType = Float, data = 0, layout = [3]\<rparr>
     = Size \<lparr>valueType = Double, data = 1, layout = [3]\<rparr>
   \<and> GetType \<lparr>valueType = Float, data = 0, layout = [3]\<rparr>
     \<noteq> GetType \<lparr>valueType = Double, data = 1, layout = [3]\<rparr>
   \<and> Dot ComputeContext ComputeContext_For [[1, 2, 3], [4, 5, 6 :: int]]
        \<lparr>valueType = Float, data = 0, layout = [3]\<rparr>
        \<lparr>valueType = Double, data = 1, layout = [3]\<rparr> = ([], Inl (InputException typeMismatch))"
  using Dot_mismatch [of "\<lparr>valueType = Float, data = 0, layout = [3]\<rparr>"
      "\<lparr>valueType = Float, data = 1, layout = [4]\<rparr>" ComputeContext ComputeContext_For
      "[[1, 2, 3], [4, 5, 6, 7 :: int]]"]
    Dot_mismatch [of "\<lparr>valueType = Float, data = 0, layout = [3]\<rparr>"
      "\<lparr>valueType = Double, data = 1, layout = [3]\<rparr>" ComputeContext ComputeContext_For
      "[[1, 2, 3], [4, 5, 6 :: int]]"]
  by (simp add: Size_def GetType_def)






subsection \<open>Sum and the order of iteration\<close>

lemma For_Matrix_visits:
  "For_Matrix ComputeContext_For \<lparr>valueType = t, data = h, layout = [r, c]\<rparr>
     (\<lambda>row column visited. visited @ [(row, column)]) [] =
   (None, List.product [0..<r] [0..<c])"
  by (simp add: For_Matrix_def NumDimensions_def ComputeContext_For_def fold_snoc_map
      row_major_two_pairs del: row_major.simps)

lemma Sum_2x2:
  "Sum ComputeContext_For (mem @ [[a, b, c, d]])
     \<lparr>valueType = t, data = length mem, layout = [2, 2]\<rparr> = Inr (0 + a + b + c + d)"
  by (simp add: Sum_def For_Matrix_def NumDimensions_def ComputeContext_For_def Allocate_def
      ScalarLayout_def Matrix_at_def GetCumulativeIncrement_def upt_rec)

text \<open>
  C5. In the interpreting context, \<open>Sum\<close> of the matrix \<open>[[1,2],[3,4]]\<close> (stored
  row-major) is \<open>10\<close>, and \<open>For\<close> over a matrix of two rows and two columns
  invokes the callback on the four coordinate pairs \<open>(0,0), (0,1), (1,0), (1,1)\<close>
  in this order, the column running fastest; the four pairs are distinct. For
  \<open>r\<close> rows and \<open>c\<close> columns the pairs visited are all the pairs below \<open>(r, c)\<close>,
  ordered by row and then by column.
\<close>

theorem Sum_and_For_2x2:
  "Sum ComputeContext_For [[1, 2, 3, 4 :: int]] \<lparr>valueType = Int32, data = 0, layout = [2, 2]\<rparr>
     = Inr 10
   \<and> For_Matrix ComputeContext_For \<lparr>valueType = t, data = h, layout = [2, 2]\<rparr>
        (\<lambda>row column visited. visited @ [(row, column)]) []
     = (None, [(0, 0), (0, 1), (1, 0), (1, 1)])
   \<and> distinct [(0 :: nat, 0 :: nat), (0, 1), (1, 0), (1, 1)]
   \<and> length [(0 :: nat, 0 :: nat), (0, 1), (1, 0), (1, 1)] = 4
   \<and> For_Matrix ComputeContext_For \<lparr>valueType = t, data = h, layout = [r, c]\<rparr>
        (\<lambda>row column visited. visited @ [(row, column)]) []
     = (None, List.product [0..<r] [0..<c])"
proof -
  have "Sum ComputeContext_For ([] @ [[1, 2, 3, 4 :: int]])
      \<lparr>valueType = Int32, data = length ([] :: int list list), layout = [2, 2]\<rparr>
      = Inr (0 + 1 + 2 + 3 + 4)"
    by (rule Sum_2x2)
  then have sum: "Sum ComputeContext_For [[1, 2, 3, 4 :: int]]
      \<lparr>valueType = Int32, data = 0, layout = [2, 2]\<rparr> = Inr 10"
    by simp
  have "List.product [0..<2] [0..<2] = [(0, 0), (0, 1), (1, 0), (1 :: nat, 1 :: nat)]"
    by (simp add: upt_rec)
  then have visits: "For_Matrix ComputeContext_For \<lparr>valueType = t, data = h, layout = [2, 2]\<rparr>
        (\<lambda>row column visited. visited @ [(row, column)]) []
      = (None, [(0, 0), (0, 1), (1, 0), (1, 1)])"
    using For_Matrix_visits [of t h 2 2] by simp
  show ?thesis
    using sum visits For_Matrix_visits [of t h r c] by simp
qed


subsection \<open>Operators\<close>

lemma preserves_nth: "preserves mem mem' \<Longrightarrow> h < length mem \<Longrightarrow> mem' ! h = mem ! h"
  unfolding preserves_def by (metis nth_take)

lemma preserves_append: "preserves mem (mem @ bs)"
  by (simp add: preserves_def)

lemma assign_Scalar_copy:
  "assign_Scalar opn (mem @ [b]) (v\<lparr>data := length mem\<rparr>) s =
     (Inr (v\<lparr>data := length mem\<rparr>), mem @ [map (\<lambda>x. element_op opn x s) b])"
  by (simp add: assign_Scalar_def)

lemma assign_Value_copy:
  "\<exists>b'. snd (assign_Value opn (mem @ [b]) (v\<lparr>data := length mem\<rparr>) v2) = mem @ [b']"
  by (simp add: assign_Value_def)

lemma copy_assign_Scalar:
  "(let (copy, mem1) = Copy mem v in assign_Scalar opn mem1 copy s) =
     (Inr (v\<lparr>data := length mem\<rparr>), mem @ [map (\<lambda>x. element_op opn x s) (mem ! data v)])"
  by (simp add: Copy_def assign_Scalar_copy)

lemma copy_assign_Value:
  "preserves mem (snd (let (copy, mem1) = Copy mem v1 in assign_Value opn mem1 copy v2))"
proof -
  obtain b' where "snd (assign_Value opn (mem @ [mem ! data v1]) (v1\<lparr>data := length mem\<rparr>) v2)
      = mem @ [b']"
    using assign_Value_copy by blast
  then show ?thesis
    by (simp add: Copy_def preserves_append)
qed

lemma fold_Vector_set:
  "fold (\<lambda>c m. Vector_set m (v\<lparr>data := length mem\<rparr>) (ix c)
            (f (Vector_at m (v\<lparr>data := length mem\<rparr>) (ix c)))) cs (mem @ [b]) =
   mem @ [fold (\<lambda>c b. b[ix c * GetCumulativeIncrement (layout v) 0
                  := f (b ! (ix c * GetCumulativeIncrement (layout v) 0))]) cs b]"
  by (induction cs arbitrary: b) (simp_all add: Vector_set_def Vector_at_def)

lemma fold_update_map:
  "n \<le> length b \<Longrightarrow> fold (\<lambda>i b. b[i := g (b ! i)]) [0..<n] b = map g (take n b) @ drop n b"
proof (induction n)
  case 0
  then show ?case by simp
next
  case (Suc n)
  then have n: "n < length b" by simp
  have "fold (\<lambda>i b. b[i := g (b ! i)]) [0..<Suc n] b =
      (map g (take n b) @ drop n b)[n := g ((map g (take n b) @ drop n b) ! n)]"
    using Suc by simp
  also have "\<dots> = map g (take n b) @ (drop n b)[0 := g (b ! n)]"
    using n by (simp add: list_update_append nth_append)
  also have "\<dots> = map g (take n b) @ g (b ! n) # drop (Suc n) b"
    using n by (simp flip: Cons_nth_drop_Suc)
  also have "\<dots> = map g (take (Suc n) b) @ drop (Suc n) b"
    using n by (simp add: take_Suc_conv_app_nth)
  finally show ?case .
qed

lemma Scalar_loop_preserves:
  "preserves mem (snd (let (copy, mem1) = Copy mem v in
      case For_Vector ComputeContext_For copy
             (\<lambda>index m. Vector_set m copy index (f (Vector_at m copy index))) mem1 of
        (Some e, mem2) \<Rightarrow> (Inl e :: exception + Vector, mem2)
      | (None, mem2) \<Rightarrow> (Inr copy, mem2)))"
  using fold_Vector_set [where ix = "\<lambda>c. c ! 0" and f = f and v = v and mem = mem]
  by (simp add: Copy_def For_Vector_def ComputeContext_For_def Let_def preserves_append
      del: row_major.simps)

lemma Scalar_loop_result:
  assumes "layout v = [n]" and "length (mem ! data v) = n"
  shows "(let (copy, mem1) = Copy mem v in
      case For_Vector ComputeContext_For copy
             (\<lambda>index m. Vector_set m copy index (f (Vector_at m copy index))) mem1 of
        (Some e, mem2) \<Rightarrow> (Inl e :: exception + Vector, mem2)
      | (None, mem2) \<Rightarrow> (Inr copy, mem2)) =
    (Inr (v\<lparr>data := length mem\<rparr>), mem @ [map f (mem ! data v)])"
proof -
  have "fold (\<lambda>i m. Vector_set m (v\<lparr>data := length mem\<rparr>) i
            (f (Vector_at m (v\<lparr>data := length mem\<rparr>) i))) [0..<n] (mem @ [mem ! data v]) =
      mem @ [map f (mem ! data v)]"
    using assms fold_Vector_set [where ix = "\<lambda>i. i" and f = f and v = v and mem = mem
        and cs = "[0..<n]" and b = "mem ! data v"]
    by (simp add: GetCumulativeIncrement_def fold_update_map)
  with assms show ?thesis
    by (simp add: Copy_def For_Vector_def NumDimensions_def ComputeContext_For_one)
qed

lemma scalar_operators_preserve:
  fixes mem :: "'a::{plus,minus,times,divide} Memory"
  shows "preserves mem (snd (Vector_plus_Scalar mem v s))
     \<and> preserves mem (snd (Scalar_plus_Vector mem s v))
     \<and> preserves mem (snd (Vector_minus_Scalar mem v s))
     \<and> preserves mem (snd (Vector_times_Scalar mem v s))
     \<and> preserves mem (snd (Scalar_times_Vector mem s v))
     \<and> preserves mem (snd (Vector_divide_Scalar mem v s))
     \<and> preserves mem (snd (Matrix_plus_Scalar mem m s))
     \<and> preserves mem (snd (Matrix_minus_Scalar mem m s))
     \<and> preserves mem (snd (Matrix_times_Scalar mem m s))
     \<and> preserves mem (snd (Matrix_divide_Scalar mem m s))"
  by (simp add: Vector_plus_Scalar_def Scalar_plus_Vector_def Vector_minus_Scalar_def
      Vector_times_Scalar_def Scalar_times_Vector_def Vector_divide_Scalar_def
      Matrix_plus_Scalar_def Matrix_minus_Scalar_def Matrix_times_Scalar_def
      Matrix_divide_Scalar_def Copy_def assign_Scalar_def preserves_append)

lemma value_operators_preserve:
  fixes mem :: "'a::{plus,minus,times,divide} Memory"
  shows "preserves mem (snd (Vector_plus_Vector mem v1 v2))
     \<and> preserves mem (snd (Vector_minus_Vector mem v1 v2))
     \<and> preserves mem (snd (Matrix_plus_Matrix mem m1 m2))
     \<and> preserves mem (snd (Matrix_minus_Matrix mem m1 m2))"
  unfolding Vector_plus_Vector_def Vector_minus_Vector_def Matrix_plus_Matrix_def
    Matrix_minus_Matrix_def
  by (intro conjI copy_assign_Value)

lemma loop_operators_preserve:
  fixes mem :: "'a::{plus,minus,times,divide} Memory"
  shows "preserves mem (snd (Scalar_minus_Vector ComputeContext_For mem s v))
     \<and> preserves mem (snd (Scalar_divide_Vector ComputeContext_For mem s v))"
  unfolding Scalar_minus_Vector_def Scalar_divide_Vector_def
  using Scalar_loop_preserves [where f = "\<lambda>x. s - x" and mem = mem and v = v]
    Scalar_loop_preserves [where f = "\<lambda>x. s div x" and mem = mem and v = v]
  by blast

lemma loop_operators_result:
  fixes mem :: "'a::{plus,minus,times,divide} Memory"
  assumes "layout v = [n]" and "length (mem ! data v) = n"
  shows "Scalar_minus_Vector ComputeContext_For mem s v =
          (Inr (v\<lparr>data := length mem\<rparr>), mem @ [map (\<lambda>x. s - x) (mem ! data v)])
     \<and> Scalar_divide_Vector ComputeContext_For mem s v =
          (Inr (v\<lparr>data := length mem\<rparr>), mem @ [map (\<lambda>x. s div x) (mem ! data v)])"
  unfolding Scalar_minus_Vector_def Scalar_divide_Vector_def
  using Scalar_loop_result [OF assms, where f = "\<lambda>x. s - x"]
    Scalar_loop_result [OF assms, where f = "\<lambda>x. s div x"]
  by blast

text \<open>
  C4, amended. Every free-function binary operator on \<open>Vector\<close> and \<open>Matrix\<close>
  copies its vector or matrix operand first and then changes the copy only. It
  does so by the compound assignment on the copy, except \<open>Scalar - Vector\<close> and
  \<open>Scalar / Vector\<close>, which overwrite each element \<open>x\<close> of the copy by \<open>s - x\<close> and
  \<open>s / x\<close> in a \<open>For\<close> loop. In the interpreting context no operator changes a
  buffer that existed before it ran: the operands hold their original elements.
  For \<open>v = [1,2,3]\<close>, \<open>c = v.Copy(); c += 1\<close> leaves \<open>v = [1,2,3]\<close> and makes
  \<open>c = [2,3,4]\<close>.
\<close>

theorem operators_copy_then_assign:
  fixes mem :: "'a::{plus,minus,times,divide} Memory"
  shows "Scalar_plus_Vector mem s v = (let (copy, mem1) = Copy mem v in assign_Scalar PlusAssign mem1 copy s)
   \<and> Vector_plus_Scalar mem v s = (let (copy, mem1) = Copy mem v in assign_Scalar PlusAssign mem1 copy s)
   \<and> Vector_plus_Vector mem v1 v2 = (let (copy, mem1) = Copy mem v1 in assign_Value PlusAssign mem1 copy v2)
   \<and> Vector_minus_Scalar mem v s = (let (copy, mem1) = Copy mem v in assign_Scalar MinusAssign mem1 copy s)
   \<and> Vector_minus_Vector mem v1 v2 = (let (copy, mem1) = Copy mem v1 in assign_Value MinusAssign mem1 copy v2)
   \<and> Scalar_times_Vector mem s v = (let (copy, mem1) = Copy mem v in assign_Scalar TimesAssign mem1 copy s)
   \<and> Vector_times_Scalar mem v s = (let (copy, mem1) = Copy mem v in assign_Scalar TimesAssign mem1 copy s)
   \<and> Vector_divide_Scalar mem v s = (let (copy, mem1) = Copy mem v in assign_Scalar DivideAssign mem1 copy s)
   \<and> Matrix_plus_Matrix mem m1 m2 = (let (copy, mem1) = Copy mem m1 in assign_Value PlusAssign mem1 copy m2)
   \<and> Matrix_plus_Scalar mem m s = (let (copy, mem1) = Copy mem m in assign_Scalar PlusAssign mem1 copy s)
   \<and> Matrix_minus_Matrix mem m1 m2 = (let (copy, mem1) = Copy mem m1 in assign_Value MinusAssign mem1 copy m2)
   \<and> Matrix_minus_Scalar mem m s = (let (copy, mem1) = Copy mem m in assign_Scalar MinusAssign mem1 copy s)
   \<and> Matrix_times_Scalar mem m s = (let (copy, mem1) = Copy mem m in assign_Scalar TimesAssign mem1 copy s)
   \<and> Matrix_divide_Scalar mem m s = (let (copy, mem1) = Copy mem m in assign_Scalar DivideAssign mem1 copy s)
   \<and> preserves mem (snd (Scalar_plus_Vector mem s v))
   \<and> preserves mem (snd (Vector_plus_Scalar mem v s))
   \<and> preserves mem (snd (Vector_plus_Vector mem v1 v2))
   \<and> preserves mem (snd (Scalar_minus_Vector ComputeContext_For mem s v))
   \<and> preserves mem (snd (Vector_minus_Scalar mem v s))
   \<and> preserves mem (snd (Vector_minus_Vector mem v1 v2))
   \<and> preserves mem (snd (Scalar_times_Vector mem s v))
   \<and> preserves mem (snd (Vector_times_Scalar mem v s))
   \<and> preserves mem (snd (Scalar_divide_Vector ComputeContext_For mem s v))
   \<and> preserves mem (snd (Vector_divide_Scalar mem v s))
   \<and> preserves mem (snd (Matrix_plus_Matrix mem m1 m2))
   \<and> preserves mem (snd (Matrix_plus_Scalar mem m s))
   \<and> preserves mem (snd (Matrix_minus_Matrix mem m1 m2))
   \<and> preserves mem (snd (Matrix_minus_Scalar mem m s))
   \<and> preserves mem (snd (Matrix_times_Scalar mem m s))
   \<and> preserves mem (snd (Matrix_divide_Scalar mem m s))
   \<and> (layout v = [n] \<and> length (mem ! data v) = n \<longrightarrow>
        Scalar_minus_Vector ComputeContext_For mem s v =
          (Inr (v\<lparr>data := length mem\<rparr>), mem @ [map (\<lambda>x. s - x) (mem ! data v)])
        \<and> Scalar_divide_Vector ComputeContext_For mem s v =
          (Inr (v\<lparr>data := length mem\<rparr>), mem @ [map (\<lambda>x. s div x) (mem ! data v)]))
   \<and> (preserves mem mem' \<and> h < length mem \<longrightarrow> mem' ! h = mem ! h)
   \<and> (let v0 = \<lparr>valueType = Int32, data = 0, layout = [3]\<rparr>;
           (c, mem1) = Copy [[1, 2, 3 :: int]] v0;
           (r, mem2) = assign_Scalar PlusAssign mem1 c 1
       in mem2 ! data v0 = [1, 2, 3] \<and> r = Inr c \<and> mem2 ! data c = [2, 3, 4])"
proof -
  have copy_first: "Scalar_plus_Vector mem s v = (let (copy, mem1) = Copy mem v in assign_Scalar PlusAssign mem1 copy s)
      \<and> Vector_plus_Scalar mem v s = (let (copy, mem1) = Copy mem v in assign_Scalar PlusAssign mem1 copy s)
      \<and> Vector_plus_Vector mem v1 v2 = (let (copy, mem1) = Copy mem v1 in assign_Value PlusAssign mem1 copy v2)
      \<and> Vector_minus_Scalar mem v s = (let (copy, mem1) = Copy mem v in assign_Scalar MinusAssign mem1 copy s)
      \<and> Vector_minus_Vector mem v1 v2 = (let (copy, mem1) = Copy mem v1 in assign_Value MinusAssign mem1 copy v2)
      \<and> Scalar_times_Vector mem s v = (let (copy, mem1) = Copy mem v in assign_Scalar TimesAssign mem1 copy s)
      \<and> Vector_times_Scalar mem v s = (let (copy, mem1) = Copy mem v in assign_Scalar TimesAssign mem1 copy s)
      \<and> Vector_divide_Scalar mem v s = (let (copy, mem1) = Copy mem v in assign_Scalar DivideAssign mem1 copy s)
      \<and> Matrix_plus_Matrix mem m1 m2 = (let (copy, mem1) = Copy mem m1 in assign_Value PlusAssign mem1 copy m2)
      \<and> Matrix_plus_Scalar mem m s = (let (copy, mem1) = Copy mem m in assign_Scalar PlusAssign mem1 copy s)
      \<and> Matrix_minus_Matrix mem m1 m2 = (let (copy, mem1) = Copy mem m1 in assign_Value MinusAssign mem1 copy m2)
      \<and> Matrix_minus_Scalar mem m s = (let (copy, mem1) = Copy mem m in assign_Scalar MinusAssign mem1 copy s)
      \<and> Matrix_times_Scalar mem m s = (let (copy, mem1) = Copy mem m in assign_Scalar TimesAssign mem1 copy s)
      \<and> Matrix_divide_Scalar mem m s = (let (copy, mem1) = Copy mem m in assign_Scalar DivideAssign mem1 copy s)"
    by (simp add: Vector_plus_Scalar_def Scalar_plus_Vector_def Vector_plus_Vector_def
        Vector_minus_Scalar_def Vector_minus_Vector_def Vector_times_Scalar_def
        Scalar_times_Vector_def Vector_divide_Scalar_def Matrix_plus_Matrix_def
        Matrix_plus_Scalar_def Matrix_minus_Matrix_def Matrix_minus_Scalar_def
        Matrix_times_Scalar_def Matrix_divide_Scalar_def)
  have example: "let v0 = \<lparr>valueType = Int32, data = 0, layout = [3]\<rparr>;
           (c, mem1) = Copy [[1, 2, 3 :: int]] v0;
           (r, mem2) = assign_Scalar PlusAssign mem1 c 1
       in mem2 ! data v0 = [1, 2, 3] \<and> r = Inr c \<and> mem2 ! data c = [2, 3, 4]"
    by (simp add: Copy_def assign_Scalar_def)
  show ?thesis
    using copy_first example scalar_operators_preserve [of mem v s m]
      value_operators_preserve [of mem v1 v2 m1 m2] loop_operators_preserve [of mem s v]
      loop_operators_result [of v n mem s] preserves_nth [of mem mem' h]
    by blast
qed

theorem operators_copy_then_assign_witness:
  "layout \<lparr>valueType = Int32, data = 0, layout = [3]\<rparr> = [3]
   \<and> length ([[1, 2, 3 :: int]] ! data \<lparr>valueType = Int32, data = 0, layout = [3]\<rparr>) = 3
   \<and> Scalar_minus_Vector ComputeContext_For [[1, 2, 3 :: int]] 1
        \<lparr>valueType = Int32, data = 0, layout = [3]\<rparr> =
       (Inr \<lparr>valueType = Int32, data = 1, layout = [3]\<rparr>, [[1, 2, 3], [0, - 1, - 2]])
   \<and> preserves [[1, 2, 3 :: int]]
        (snd (Vector_plus_Scalar [[1, 2, 3]] \<lparr>valueType = Int32, data = 0, layout = [3]\<rparr> 1))
   \<and> (0 :: nat) < length [[1, 2, 3 :: int]]
   \<and> snd (Vector_plus_Scalar [[1, 2, 3 :: int]] \<lparr>valueType = Int32, data = 0, layout = [3]\<rparr> 1)
        ! 0 = [1, 2, 3]"
proof -
  let ?mem = "[[1, 2, 3 :: int]]"
  let ?v = "\<lparr>valueType = Int32, data = 0, layout = [3]\<rparr>"
  let ?mem' = "snd (Vector_plus_Scalar ?mem ?v 1)"
  note ops = operators_copy_then_assign [where mem = ?mem and v = ?v and s = 1 and n = 3
      and h = 0 and mem' = ?mem']
  have well_formed: "layout ?v = [3] \<and> length (?mem ! data ?v) = 3"
    by simp
  have allocated: "(0 :: nat) < length ?mem"
    by simp
  from ops well_formed have minus: "Scalar_minus_Vector ComputeContext_For ?mem 1 ?v =
      (Inr (?v\<lparr>data := length ?mem\<rparr>), ?mem @ [map (\<lambda>x. 1 - x) (?mem ! data ?v)])"
    by blast
  from ops have kept: "preserves ?mem ?mem'"
    by blast
  from ops kept allocated have same: "?mem' ! 0 = ?mem ! 0"
    by blast
  from well_formed allocated minus kept same show ?thesis
    by simp
qed

text \<open>
  The claim as stated fails at \<open>Scalar - Vector\<close>: \<open>1 - [1,2,3]\<close> is \<open>[0,-1,-2]\<close>,
  and no compound assignment of the scalar \<open>1\<close> to the copy of \<open>[1,2,3]\<close> gives it:
  \<open>+=\<close> gives \<open>[2,3,4]\<close>, \<open>-=\<close> gives \<open>[0,1,2]\<close>, \<open>*=\<close> and \<open>/=\<close> give \<open>[1,2,3]\<close>.
\<close>

theorem Scalar_minus_Vector_not_compound_assign:
  "Scalar_minus_Vector ComputeContext_For [[1, 2, 3 :: int]] 1
       \<lparr>valueType = Int32, data = 0, layout = [3]\<rparr> =
     (Inr \<lparr>valueType = Int32, data = 1, layout = [3]\<rparr>, [[1, 2, 3], [0, - 1, - 2]])
   \<and> Copy [[1, 2, 3 :: int]] \<lparr>valueType = Int32, data = 0, layout = [3]\<rparr> =
     (\<lparr>valueType = Int32, data = 1, layout = [3]\<rparr>, [[1, 2, 3], [1, 2, 3]])
   \<and> assign_Scalar PlusAssign [[1, 2, 3], [1, 2, 3 :: int]]
       \<lparr>valueType = Int32, data = 1, layout = [3]\<rparr> 1 =
     (Inr \<lparr>valueType = Int32, data = 1, layout = [3]\<rparr>, [[1, 2, 3], [2, 3, 4]])
   \<and> assign_Scalar MinusAssign [[1, 2, 3], [1, 2, 3 :: int]]
       \<lparr>valueType = Int32, data = 1, layout = [3]\<rparr> 1 =
     (Inr \<lparr>valueType = Int32, data = 1, layout = [3]\<rparr>, [[1, 2, 3], [0, 1, 2]])
   \<and> assign_Scalar TimesAssign [[1, 2, 3], [1, 2, 3 :: int]]
       \<lparr>valueType = Int32, data = 1, layout = [3]\<rparr> 1 =
     (Inr \<lparr>valueType = Int32, data = 1, layout = [3]\<rparr>, [[1, 2, 3], [1, 2, 3]])
   \<and> assign_Scalar DivideAssign [[1, 2, 3], [1, 2, 3 :: int]]
       \<lparr>valueType = Int32, data = 1, layout = [3]\<rparr> 1 =
     (Inr \<lparr>valueType = Int32, data = 1, layout = [3]\<rparr>, [[1, 2, 3], [1, 2, 3]])
   \<and> Scalar_minus_Vector ComputeContext_For [[1, 2, 3 :: int]] 1
       \<lparr>valueType = Int32, data = 0, layout = [3]\<rparr> \<noteq>
     assign_Scalar MinusAssign
       (snd (Copy [[1, 2, 3]] \<lparr>valueType = Int32, data = 0, layout = [3]\<rparr>))
       (fst (Copy [[1, 2, 3 :: int]] \<lparr>valueType = Int32, data = 0, layout = [3]\<rparr>)) 1"
proof -
  have "Scalar_minus_Vector ComputeContext_For [[1, 2, 3 :: int]] 1
       \<lparr>valueType = Int32, data = 0, layout = [3]\<rparr> =
     (Inr \<lparr>valueType = Int32, data = 1, layout = [3]\<rparr>, [[1, 2, 3], [0, - 1, - 2]])"
    using loop_operators_result [where mem = "[[1, 2, 3 :: int]]"
        and v = "\<lparr>valueType = Int32, data = 0, layout = [3]\<rparr>" and s = 1 and n = 3]
    by simp
  then show ?thesis
    by (simp add: Copy_def assign_Scalar_def)
qed


subsection \<open>Window functions\<close>

declare coeffLoop.simps [simp del] indexLoop.simps [simp del]

lemma fcos_over_zero: "fcos fp (fdiv fp x (Finite 0)) = NaN"
  by (cases x) simp_all

lemma fmul_NaN: "fmul fp x NaN = NaN"
  by (cases x) simp_all

lemma fadd_NaN: "fadd fp x NaN = NaN"
  by (cases x) simp_all

lemma coeffLoop_NaN: "coeffLoop fp a i d k sg NaN = NaN"
proof (induction fp a i d k sg "NaN" rule: coeffLoop.induct)
  case (1 fp a i d k sg)
  then show ?case by (subst coeffLoop.simps) simp
qed

lemma coeffLoop_zero_denom:
  "coeffLoop fp a i (Finite 0) k sg w = (if k < length a then NaN else w)"
  by (subst coeffLoop.simps) (simp add: fcos_over_zero fmul_NaN fadd_NaN coeffLoop_NaN)

lemma indexLoop_one:
  "indexLoop fp (a # cs) (Finite 0) (Suc 0) 0 [Finite 0] = [if cs = [] then a else NaN]"
  by (subst indexLoop.simps, subst indexLoop.simps) (simp add: coeffLoop_zero_denom)

lemma length_indexLoop: "length (indexLoop fp a d n i result) = length result"
proof (induction fp a d n i result rule: indexLoop.induct)
  case (1 fp a d n i result)
  then show ?case by (subst indexLoop.simps) simp
qed

lemma GeneralizedCosineWindow_length:
  assumes "unat sz \<le> available" and "coefficients \<noteq> []"
  shows "\<exists>w. GeneralizedCosineWindow fp available sz coefficients symmetry = Inr w
             \<and> length w = unat sz"
  using assms by (simp add: GeneralizedCosineWindow_def length_indexLoop)

text \<open>
  C10, at the failing input. The symmetric window of size one has the
  denominator \<open>size - 1 = 0\<close>: every cosine is taken of a quotient by zero and is
  not-a-number, whatever the rounding, the library's cosine and the coefficients
  are. Where one element can be allocated, the window returned for two or more
  coefficients is \<open>[NaN]\<close>, and so are the Hann window and the Hamming window of
  size one: no number, and so not the alternating cosine sum. (With one
  coefficient no cosine is taken and the window is that coefficient.)
\<close>

theorem symmetric_window_of_size_one:
  "GeneralizedCosineWindow fp (Suc k) 1 (a # b # cs) symmetric = Inr [NaN]
   \<and> HannWindow fp (Suc k) 1 symmetric = Inr [NaN]
   \<and> HammingWindow fp (Suc k) 1 symmetric = Inr [NaN]
   \<and> GeneralizedCosineWindow fp (Suc k) 1 [a] symmetric = Inr [a]"
  by (simp add: HannWindow_def HammingWindow_def GeneralizedCosineWindow_def size_to_double_def
      indexLoop_one)

end
